theory Spec2Isabelle
  imports Main
begin

section \<open>EDClient: the entity model\<close>

text \<open>
  This theory embeds the acquisition pipeline of \<^verbatim>\<open>EDClient.py\<close> (the ECHO data client):
  request loading, the catalog queries, the merge of pending downloads, the download
  feasibility check, the transfer loop, the cleanup pass, the database update pass and the
  replay of pending database transactions.

  Conventions of the embedding.
  \<^item> A Python exception that leaves a function is a value \<open>Inl e\<close> of a sum type; a
    normal return is \<open>Inr v\<close>. \<^verbatim>\<open>raise SystemExit\<close> is \<open>Inl SystemExit\<close>.
  \<^item> Objects that the source mutates in place are records that the functions return
    updated.
  \<^item> Python floats (sizes in MB, coordinates) are values of a type parameter \<open>'f\<close>; the
    functions that compare or add them ask only for the order and the operations they use.
  \<^item> The process-wide log handle \<^verbatim>\<open>EDClog\<close> is a list of lines, returned by the functions
    whose log output a property refers to.
\<close>

datatype pyexn =
    SystemExit
  | ValueError
  | AttributeError
  | TypeError
  | IndexError
  | KeyError
  | OSError
  | IOError
  | UnboundLocalError string

text \<open>Class \<^verbatim>\<open>ECHOpolypoint\<close>.\<close>

record 'f ECHOpolypoint =
  latitude :: 'f
  longitude :: 'f
  p_dbInsertFailed :: bool

text \<open>
  Class \<^verbatim>\<open>ECHOgranule\<close>. \<open>downloadStatus\<close> is 0 (not downloaded, already in the
  database), 1 (downloaded), -1 (download failed) or -2 (directory make failed).
\<close>

record 'f ECHOgranule =
  egid :: string
  granuleUR :: string
  granuleSizeMB :: 'f
  g_begDateTime :: string
  g_endDateTime :: string
  HasPolyPoints :: int
  polyPoints :: "'f ECHOpolypoint list"
  w_bound :: 'f
  s_bound :: 'f
  e_bound :: 'f
  n_bound :: 'f
  localFileName :: string
  accessURLs :: "(string \<times> string) list"
  numDloadTrys :: int
  g_dbInsertFailed :: bool
  downloadStatus :: int

text \<open>The constructor \<^verbatim>\<open>ECHOgranule.__init__\<close>: one polypoint object per (lat, lon) tuple.\<close>

definition new_ECHOpolypoint :: "'f \<Rightarrow> 'f \<Rightarrow> 'f ECHOpolypoint" where
  "new_ECHOpolypoint lat lon =
     \<lparr>latitude = lat, longitude = lon, p_dbInsertFailed = False\<rparr>"

definition new_ECHOgranule ::
  "string \<Rightarrow> string \<Rightarrow> 'f \<Rightarrow> string \<Rightarrow> string \<Rightarrow> int \<Rightarrow> ('f \<times> 'f) list \<Rightarrow>
   'f \<Rightarrow> 'f \<Rightarrow> 'f \<Rightarrow> 'f \<Rightarrow> (string \<times> string) list \<Rightarrow> string \<Rightarrow> int \<Rightarrow> 'f ECHOgranule" where
  "new_ECHOgranule gid ur sizeMB bdt edt ppflag ppts wbnd sbnd ebnd nbnd aurls lfn dltrys =
     \<lparr>egid = gid, granuleUR = ur, granuleSizeMB = sizeMB,
      g_begDateTime = bdt, g_endDateTime = edt, HasPolyPoints = ppflag,
      polyPoints = map (\<lambda>(lat, lon). new_ECHOpolypoint lat lon) ppts,
      w_bound = wbnd, s_bound = sbnd, e_bound = ebnd, n_bound = nbnd,
      localFileName = lfn, accessURLs = aurls, numDloadTrys = dltrys,
      g_dbInsertFailed = False, downloadStatus = 0\<rparr>"

text \<open>
  Class \<^verbatim>\<open>ECHOcollection\<close>. \<open>numGranules\<close> is the length of the granule response root,
  which \<^verbatim>\<open>getGranules\<close> sets; the granules themselves are in \<open>granContainer\<close>.
\<close>

record 'f ECHOcollection =
  collID :: string
  shortName :: string
  archCenter :: string
  collDesc :: string
  c_begDateTime :: string
  c_endDateTime :: string
  doi :: string
  granContainer :: "'f ECHOgranule list"
  numGranules :: nat
  haveFailedDwnlds :: bool
  c_dbInsertFailed :: bool

definition new_ECHOcollection ::
  "string \<Rightarrow> string \<Rightarrow> string \<Rightarrow> string \<Rightarrow> string \<Rightarrow> string \<Rightarrow> string \<Rightarrow> 'f ECHOcollection" where
  "new_ECHOcollection cid csn cac ccd bdt edt d =
     \<lparr>collID = cid, shortName = csn, archCenter = cac, collDesc = ccd,
      c_begDateTime = bdt, c_endDateTime = edt, doi = d,
      granContainer = [], numGranules = 0,
      haveFailedDwnlds = False, c_dbInsertFailed = False\<rparr>"

text \<open>\<^verbatim>\<open>ECHOcollection.getCollSizeMB\<close>: the sizes of the granules, added from 0.0 in order.\<close>

definition getCollSizeMB :: "('f::{zero,plus}) ECHOcollection \<Rightarrow> 'f" where
  "getCollSizeMB c = foldl (\<lambda>cSizeMB g. cSizeMB + granuleSizeMB g) 0 (granContainer c)"

text \<open>
  The fields of class \<^verbatim>\<open>ECHOdsQuery\<close>: the parts of the query string of one dataset.
\<close>

record ECHOdsQuery =
  snStr :: string
  vStr :: string
  bbStr :: string
  tStr :: string
  q_w_bound :: string
  q_s_bound :: string
  q_e_bound :: string
  q_n_bound :: string

text \<open>
  The part of class \<^verbatim>\<open>ECHOrequest\<close> that the pipeline reads after request loading: the
  dataset queries and the collection container, each with its counter, the disk space that
  \<^verbatim>\<open>setDiskSpaceAvail\<close> found and the limits of the command line. \<open>dwnloadLimit\<close> is an
  int in the source; Python compares it with the float total by value, so it is held in the
  number type of the sizes.
\<close>

record 'f ECHOrequest =
  maxDataFiles :: int
  dwnloadLimit :: 'f
  availDiskSpaceMB :: 'f
  directoryRoot :: string
  dbFlag :: string
  dataSetQueries :: "ECHOdsQuery list"
  numDatasetQueries :: nat
  numCollections :: nat
  collContainer :: "'f ECHOcollection list"

section \<open>Python and lxml primitives\<close>

text \<open>Sequencing of computations that may raise: the first exception ends the computation.\<close>

fun pybind :: "pyexn + 'a \<Rightarrow> ('a \<Rightarrow> pyexn + 'b) \<Rightarrow> pyexn + 'b" where
  "pybind (Inl e) f = Inl e"
| "pybind (Inr x) f = f x"

text \<open>
  Python list indexing \<^verbatim>\<open>xs[i]\<close>: a negative index counts from the end, an index out of
  range raises IndexError. \<open>py_setitem\<close> is the in-place change of the object at an index.
\<close>

definition py_getitem :: "'a list \<Rightarrow> int \<Rightarrow> pyexn + 'a" where
  "py_getitem xs i =
     (if 0 \<le> i \<and> i < int (length xs) then Inr (xs ! nat i)
      else if i < 0 \<and> - int (length xs) \<le> i then Inr (xs ! nat (int (length xs) + i))
      else Inl IndexError)"

definition py_setitem :: "'a list \<Rightarrow> int \<Rightarrow> 'a \<Rightarrow> 'a list" where
  "py_setitem xs i v =
     (if 0 \<le> i then xs[nat i := v] else xs[nat (int (length xs) + i) := v])"

text \<open>
  \<^verbatim>\<open>int(s)\<close> on a string, in base 10: surrounding whitespace is stripped, one sign is allowed,
  at least one digit must follow and nothing else; anything else raises ValueError.
\<close>

definition py_isspace :: "char \<Rightarrow> bool" where
  "py_isspace c = (c \<in> set [CHR '' '', CHR 0x09, CHR 0x0A, CHR 0x0B, CHR 0x0C, CHR 0x0D])"

definition py_strip :: "string \<Rightarrow> string" where
  "py_strip s = rev (dropWhile py_isspace (rev (dropWhile py_isspace s)))"

definition py_isdigit :: "char \<Rightarrow> bool" where
  "py_isdigit c = (48 \<le> (of_char c :: nat) \<and> (of_char c :: nat) \<le> 57)"

definition py_digits :: "string \<Rightarrow> pyexn + int" where
  "py_digits ds =
     (if ds = [] \<or> \<not> list_all py_isdigit ds then Inl ValueError
      else Inr (foldl (\<lambda>a c. 10 * a + (int (of_char c) - 48)) 0 ds))"

definition py_int :: "string \<Rightarrow> pyexn + int" where
  "py_int s =
     (case py_strip s of
        [] \<Rightarrow> Inl ValueError
      | c # cs \<Rightarrow>
          if c = CHR ''-'' then pybind (py_digits cs) (\<lambda>n. Inr (- n))
          else if c = CHR ''+'' then py_digits cs
          else py_digits (c # cs))"

text \<open>The tab and the newline of the log lines.\<close>

definition tab :: string where
  "tab = [CHR 0x09]"

definition nl :: string where
  "nl = [CHR 0x0A]"

text \<open>\<^verbatim>\<open>str(i)\<close> on an int: the decimal digits, after a minus sign when negative.\<close>

fun str_nat :: "nat \<Rightarrow> string" where
  "str_nat n =
     (if n < 10 then [char_of (48 + n)] else str_nat (n div 10) @ [char_of (48 + n mod 10)])"

declare str_nat.simps [simp del]

definition py_str_int :: "int \<Rightarrow> string" where
  "py_str_int i = (if i < 0 then CHR ''-'' # str_nat (nat (- i)) else str_nat (nat i))"

text \<open>
  \<^verbatim>\<open>float(s)\<close> is a parameter \<open>float_of\<close> of the functions that parse floats: \<open>None\<close> is
  the ValueError of a string that is no float.
\<close>

definition py_float :: "(string \<Rightarrow> 'f option) \<Rightarrow> string \<Rightarrow> pyexn + 'f" where
  "py_float float_of s = (case float_of s of None \<Rightarrow> Inl ValueError | Some x \<Rightarrow> Inr x)"

text \<open>
  An lxml element: tag, attributes, text and children. lxml gives \<^verbatim>\<open>None\<close> for the text of
  an element without character data; the trees here carry a string, so the documents of this
  model are those whose elements, where the source reads their text, have some.
\<close>

datatype xml = Element (tag: string) (attrib: "(string \<times> string) list") (xtext: string)
  (children: "xml list")

text \<open>\<^verbatim>\<open>e.get(k)\<close>, \<^verbatim>\<open>e.find(t)\<close>, \<^verbatim>\<open>e.findall(t)\<close> and \<^verbatim>\<open>e.find(t).text\<close>.\<close>

definition xml_get :: "xml \<Rightarrow> string \<Rightarrow> string option" where
  "xml_get e k = map_of (attrib e) k"

definition xml_get_default :: "xml \<Rightarrow> string \<Rightarrow> string \<Rightarrow> string" where
  "xml_get_default e k d = (case xml_get e k of None \<Rightarrow> d | Some v \<Rightarrow> v)"

definition xml_find :: "xml \<Rightarrow> string \<Rightarrow> xml option" where
  "xml_find e t = find (\<lambda>c. tag c = t) (children e)"

definition xml_findall :: "xml \<Rightarrow> string \<Rightarrow> xml list" where
  "xml_findall e t = filter (\<lambda>c. tag c = t) (children e)"

text \<open>
  A method call on the result of \<^verbatim>\<open>find\<close>: when \<^verbatim>\<open>find\<close> gave \<^verbatim>\<open>None\<close> the call raises
  AttributeError.
\<close>

definition on_found :: "xml option \<Rightarrow> pyexn + xml" where
  "on_found r = (case r of None \<Rightarrow> Inl AttributeError | Some e \<Rightarrow> Inr e)"

definition find_text :: "xml \<Rightarrow> string \<Rightarrow> pyexn + string" where
  "find_text e t = pybind (on_found (xml_find e t)) (\<lambda>c. Inr (xtext c))"

section \<open>Request loading: the dataset queries\<close>

text \<open>
  \<^verbatim>\<open>datetime.date(year, month, day)\<close> of the Python library: the year is between 1 and
  9999, the month between 1 and 12 and the day between 1 and the length of that month in
  that year, otherwise the constructor raises ValueError. \<^verbatim>\<open>toordinal\<close> is the number of
  the day in the proleptic Gregorian calendar, day 1 being the first of January of year 1.
\<close>

definition is_leap :: "int \<Rightarrow> bool" where
  "is_leap y = (y mod 4 = 0 \<and> (y mod 100 \<noteq> 0 \<or> y mod 400 = 0))"

definition days_in_month :: "int \<Rightarrow> int \<Rightarrow> int" where
  "days_in_month y m =
     (if m = 2 then (if is_leap y then 29 else 28)
      else if m = 4 \<or> m = 6 \<or> m = 9 \<or> m = 11 then 30 else 31)"

definition days_before_month :: "int \<Rightarrow> int \<Rightarrow> int" where
  "days_before_month y m = (\<Sum>k \<leftarrow> [1 ..< nat m]. days_in_month y (int k))"

definition days_before_year :: "int \<Rightarrow> int" where
  "days_before_year y = (y - 1) * 365 + (y - 1) div 4 - (y - 1) div 100 + (y - 1) div 400"

datatype pydate = Date (year: int) (month: int) (day: int)

definition py_date :: "int \<Rightarrow> int \<Rightarrow> int \<Rightarrow> pyexn + pydate" where
  "py_date y m d =
     (if 1 \<le> y \<and> y \<le> 9999 \<and> 1 \<le> m \<and> m \<le> 12 \<and> 1 \<le> d \<and> d \<le> days_in_month y m
      then Inr (Date y m d) else Inl ValueError)"

definition toordinal :: "pydate \<Rightarrow> int" where
  "toordinal dt = days_before_year (year dt) + days_before_month (year dt) (month dt) + day dt"

text \<open>
  The day of the year as the source computes it, in \<^verbatim>\<open>loadDataSetQueries\<close> and again in
  \<^verbatim>\<open>downloadGranules\<close>: the ordinal of the date minus the ordinal of the first of January,
  plus 1.
\<close>

definition day_of_year :: "int \<Rightarrow> int \<Rightarrow> int \<Rightarrow> pyexn + int" where
  "day_of_year yr mon dy =
     pybind (py_date yr mon dy) (\<lambda>aDate.
     pybind (py_date yr 1 1) (\<lambda>jan1.
     Inr (toordinal aDate - toordinal jan1 + 1)))"

text \<open>
  The loop of \<^verbatim>\<open>loadDataSetQueries\<close> over the years of a recurring search: the day of
  the year of the start and of the end in every year, then the minimum of the first list
  and the maximum of the second. \<^verbatim>\<open>min\<close> and \<^verbatim>\<open>max\<close> of an empty list raise ValueError.
\<close>

fun recurring_lists :: "int list \<Rightarrow> int \<Rightarrow> int \<Rightarrow> int \<Rightarrow> int \<Rightarrow> int list \<times> int list \<Rightarrow>
    pyexn + int list \<times> int list" where
  "recurring_lists [] intMonStart intDayStart intMonEnd intDayEnd acc = Inr acc"
| "recurring_lists (yr # yrs) intMonStart intDayStart intMonEnd intDayEnd
       (temporal_start_list, temporal_end_list) =
     pybind (day_of_year yr intMonStart intDayStart) (\<lambda>sdoy.
     pybind (day_of_year yr intMonEnd intDayEnd) (\<lambda>edoy.
     recurring_lists yrs intMonStart intDayStart intMonEnd intDayEnd
       (temporal_start_list @ [sdoy], temporal_end_list @ [edoy])))"

definition py_min :: "int list \<Rightarrow> pyexn + int" where
  "py_min xs = (case xs of [] \<Rightarrow> Inl ValueError | x # ys \<Rightarrow> Inr (foldl min x ys))"

definition py_max :: "int list \<Rightarrow> pyexn + int" where
  "py_max xs = (case xs of [] \<Rightarrow> Inl ValueError | x # ys \<Rightarrow> Inr (foldl max x ys))"

definition recurring_days :: "int \<Rightarrow> int \<Rightarrow> int \<Rightarrow> int \<Rightarrow> int \<Rightarrow> int \<Rightarrow> pyexn + int \<times> int" where
  "recurring_days yr_start yr_end intMonStart intDayStart intMonEnd intDayEnd =
     pybind (recurring_lists [yr_start .. yr_end] intMonStart intDayStart intMonEnd intDayEnd
               ([], [])) (\<lambda>(temporal_start_list, temporal_end_list).
     pybind (py_min temporal_start_list) (\<lambda>temporal_start_day.
     pybind (py_max temporal_end_list) (\<lambda>temporal_end_day.
     Inr (temporal_start_day, temporal_end_day))))"

text \<open>
  The outcome of \<^verbatim>\<open>loadDataSetQueries\<close> and of its parts: an exception leaves the method,
  or it writes a line to the log and returns False, or it goes on with a value.
\<close>

datatype 'a loaded = Raise pyexn | ReturnFalse string | Go 'a

fun lbind :: "'a loaded \<Rightarrow> ('a \<Rightarrow> 'b loaded) \<Rightarrow> 'b loaded" where
  "lbind (Raise e) f = Raise e"
| "lbind (ReturnFalse msg) f = ReturnFalse msg"
| "lbind (Go x) f = f x"

definition lift_exn :: "pyexn + 'a \<Rightarrow> 'a loaded" where
  "lift_exn r = (case r of Inl e \<Rightarrow> Raise e | Inr x \<Rightarrow> Go x)"

text \<open>
  The local variables of \<^verbatim>\<open>loadDataSetQueries\<close> that live on from one criterion and from
  one dataset to the next. \<^verbatim>\<open>bb\<close>, \<^verbatim>\<open>vinfo\<close>, the datetime strings and the two day
  values are initialised before the loop (the two days with the empty string, here
  \<open>None\<close>); the others are unbound, here \<open>None\<close>, until they are assigned, and reading an
  unbound one raises UnboundLocalError. \<^verbatim>\<open>vinfo\<close> holds the result of \<^verbatim>\<open>criteria.get("v")\<close>,
  which is \<^verbatim>\<open>None\<close> when the attribute is missing.
\<close>

record lds_locals =
  bb :: "string \<rightharpoonup> string"
  vinfo :: "string option"
  sdatetime :: string
  edatetime :: string
  temporal_start_day :: "int option"
  temporal_end_day :: "int option"
  temporalSearchType :: "string option"
  yr_start :: "string option"
  yr_end :: "string option"
  mon_start :: "string option"
  day_start :: "string option"
  tim_start :: "string option"
  mon_end :: "string option"
  day_end :: "string option"
  tim_end :: "string option"

definition lds_initial :: lds_locals where
  "lds_initial =
     \<lparr>bb = Map.empty, vinfo = Some [], sdatetime = [], edatetime = [],
      temporal_start_day = None, temporal_end_day = None, temporalSearchType = None,
      yr_start = None, yr_end = None, mon_start = None, day_start = None, tim_start = None,
      mon_end = None, day_end = None, tim_end = None\<rparr>"

definition read_local :: "string \<Rightarrow> 'a option \<Rightarrow> 'a loaded" where
  "read_local name v = (case v of None \<Rightarrow> Raise (UnboundLocalError name) | Some x \<Rightarrow> Go x)"

definition int_of_local :: "string \<Rightarrow> string option \<Rightarrow> int loaded" where
  "int_of_local name v = lbind (read_local name v) (\<lambda>x. lift_exn (py_int x))"

text \<open>
  One child of a recurring temporal criterion. The three \<^verbatim>\<open>if\<close>s on the tag follow each
  other; the flags are \<open>(yearFlag, startFlag, endFlag)\<close>.
\<close>

definition lds_year :: "lds_locals \<times> bool \<times> bool \<times> bool \<Rightarrow> xml \<Rightarrow> (lds_locals \<times> bool \<times> bool \<times> bool) loaded" where
  "lds_year st tcrit =
     (let (L, yearFlag, startFlag, endFlag) = st in
      if tag tcrit = ''year'' then
        (let ys = xml_get_default tcrit ''yr_start'' [];
             ye = xml_get_default tcrit ''yr_end'' [];
             L1 = L\<lparr>yr_start := Some ys, yr_end := Some ye\<rparr>
         in if length ys \<noteq> 0 \<and> length ye \<noteq> 0 then
              lbind (lift_exn (py_int ys)) (\<lambda>a.
              lbind (lift_exn (py_int ye)) (\<lambda>b.
              if a > b
              then ReturnFalse (tab @ ''Start year past end year in temporal recurring search criteria'')
              else Go (L1, True, startFlag, endFlag)))
            else Go (L1, yearFlag, startFlag, endFlag))
      else Go st)"

definition lds_month_day :: "string \<Rightarrow> string \<Rightarrow> string \<Rightarrow> string \<Rightarrow> unit loaded" where
  "lds_month_day mon dy badMonth badDay =
     lbind (lift_exn (py_int mon)) (\<lambda>m.
     if m < 1 \<or> m > 12 then ReturnFalse badMonth
     else lbind (lift_exn (py_int dy)) (\<lambda>d.
          if d < 1 \<or> d > 31 then ReturnFalse badDay else Go ()))"

definition lds_start :: "lds_locals \<times> bool \<times> bool \<times> bool \<Rightarrow> xml \<Rightarrow> (lds_locals \<times> bool \<times> bool \<times> bool) loaded" where
  "lds_start st tcrit =
     (let (L, yearFlag, startFlag, endFlag) = st in
      if tag tcrit = ''start'' then
        (let ms = xml_get_default tcrit ''mon_start'' [];
             ds = xml_get_default tcrit ''day_start'' [];
             ts = xml_get_default tcrit ''tim_start'' [];
             L1 = L\<lparr>mon_start := Some ms, day_start := Some ds, tim_start := Some ts\<rparr>
         in if length ms \<noteq> 0 \<and> length ds \<noteq> 0 \<and> length ts \<noteq> 0 then
              lbind (lds_month_day ms ds
                       (tab @ ''Invalid start month in temporal recurring search criteria'')
                       (tab @ ''Invalid start day in temporal recurring search criteria''))
                (\<lambda>u. Go (L1, yearFlag, True, endFlag))
            else Go (L1, yearFlag, startFlag, endFlag))
      else Go st)"

definition lds_end :: "lds_locals \<times> bool \<times> bool \<times> bool \<Rightarrow> xml \<Rightarrow> (lds_locals \<times> bool \<times> bool \<times> bool) loaded" where
  "lds_end st tcrit =
     (let (L, yearFlag, startFlag, endFlag) = st in
      if tag tcrit = ''end'' then
        (let me = xml_get_default tcrit ''mon_end'' [];
             de = xml_get_default tcrit ''day_end'' [];
             te = xml_get_default tcrit ''tim_end'' [];
             L1 = L\<lparr>mon_end := Some me, day_end := Some de, tim_end := Some te\<rparr>
         in if length me \<noteq> 0 \<and> length de \<noteq> 0 \<and> length te \<noteq> 0 then
              lbind (lds_month_day me de
                       (tab @ ''Invalid end month in temporal recurring search criteria'')
                       (tab @ ''Invalid end day in temporal recurring search criteria''))
                (\<lambda>u. Go (L1, yearFlag, startFlag, True))
            else Go (L1, yearFlag, startFlag, endFlag))
      else Go st)"

fun lds_recurring_children ::
  "lds_locals \<times> bool \<times> bool \<times> bool \<Rightarrow> xml list \<Rightarrow> (lds_locals \<times> bool \<times> bool \<times> bool) loaded" where
  "lds_recurring_children st [] = Go st"
| "lds_recurring_children st (tcrit # rest) =
     lbind (lds_year st tcrit) (\<lambda>st1.
     lbind (lds_start st1 tcrit) (\<lambda>st2.
     lbind (lds_end st2 tcrit) (\<lambda>st3.
     lds_recurring_children st3 rest)))"

text \<open>
  A recurring temporal criterion: the loop over its children, the comparison of the two
  months (which reads \<^verbatim>\<open>mon_start\<close> and \<^verbatim>\<open>mon_end\<close> whether or not this criterion assigned
  them), the check of the three flags, and the computation of the days and the datetime
  strings.
\<close>

definition lds_recurring :: "lds_locals \<Rightarrow> xml \<Rightarrow> lds_locals loaded" where
  "lds_recurring L0 criteria =
     lbind (lds_recurring_children (L0, False, False, False) (children criteria))
       (\<lambda>(L, yearFlag, startFlag, endFlag).
     lbind (int_of_local ''mon_start'' (mon_start L)) (\<lambda>ms.
     lbind (int_of_local ''mon_end'' (mon_end L)) (\<lambda>me.
     if ms > me
     then ReturnFalse (tab @ ''Month start past month end in temporal recurring search criteria'')
     else if \<not> (yearFlag \<and> startFlag \<and> endFlag)
     then ReturnFalse (tab @ ''Invalid or missing recurring temporal search criteria'')
     else
       lbind (int_of_local ''mon_start'' (mon_start L)) (\<lambda>intMonStart.
       lbind (int_of_local ''day_start'' (day_start L)) (\<lambda>intDayStart.
       lbind (int_of_local ''mon_end'' (mon_end L)) (\<lambda>intMonEnd.
       lbind (int_of_local ''day_end'' (day_end L)) (\<lambda>intDayEnd.
       lbind (int_of_local ''yr_start'' (yr_start L)) (\<lambda>ys.
       lbind (int_of_local ''yr_end'' (yr_end L)) (\<lambda>ye.
       lbind (lift_exn (recurring_days ys ye intMonStart intDayStart intMonEnd intDayEnd))
         (\<lambda>(tsd, ted).
       lbind (read_local ''yr_start'' (yr_start L)) (\<lambda>yrs.
       lbind (read_local ''tim_start'' (tim_start L)) (\<lambda>tims.
       lbind (read_local ''yr_end'' (yr_end L)) (\<lambda>yre.
       lbind (read_local ''tim_end'' (tim_end L)) (\<lambda>time.
       Go (L\<lparr>temporal_start_day := Some tsd, temporal_end_day := Some ted,
               sdatetime := yrs @ ''-01-01T'' @ tims,
               edatetime := yre @ ''-12-31T'' @ time\<rparr>)))))))))))))))"

text \<open>A static temporal criterion: both datetime elements must be there.\<close>

fun lds_static_children :: "lds_locals \<times> bool \<times> bool \<Rightarrow> xml list \<Rightarrow> lds_locals \<times> bool \<times> bool" where
  "lds_static_children st [] = st"
| "lds_static_children (L, stFlag, etFlag) (tcrit # rest) =
     (let (L1, stFlag1) =
            (if tag tcrit = ''startdatetime''
             then (L\<lparr>sdatetime := xml_get_default tcrit ''dtstr'' []\<rparr>, True)
             else (L, stFlag));
          (L2, etFlag1) =
            (if tag tcrit = ''enddatetime''
             then (L1\<lparr>edatetime := xml_get_default tcrit ''dtstr'' []\<rparr>, True)
             else (L1, etFlag))
      in lds_static_children (L2, stFlag1, etFlag1) rest)"

definition lds_static :: "lds_locals \<Rightarrow> xml \<Rightarrow> lds_locals loaded" where
  "lds_static L0 criteria =
     (let (L, stFlag, etFlag) = lds_static_children (L0, False, False) (children criteria) in
      if \<not> (stFlag \<and> etFlag)
      then ReturnFalse (tab @ ''Missing elements in static temporal search criteria'')
      else Go L)"

text \<open>
  One criterion of a dataset; the flags are \<open>(vFlag, bbFlag, tFlag)\<close>.
\<close>

definition lds_criteria :: "lds_locals \<times> bool \<times> bool \<times> bool \<Rightarrow> xml \<Rightarrow> (lds_locals \<times> bool \<times> bool \<times> bool) loaded" where
  "lds_criteria st criteria =
     (let (L, vFlag, bbFlag, tFlag) = st; critname = tag criteria in
      if critname = ''boundingbox'' then
        (case (xml_get criteria ''w'', xml_get criteria ''s'', xml_get criteria ''e'',
               xml_get criteria ''n'') of
           (Some w, Some s, Some e, Some n) \<Rightarrow>
             Go (L\<lparr>bb := (bb L)(''w'' \<mapsto> w, ''s'' \<mapsto> s, ''e'' \<mapsto> e, ''n'' \<mapsto> n)\<rparr>,
                 vFlag, True, tFlag)
         | _ \<Rightarrow>
             ReturnFalse
               (tab @ ''Invalid bounding box attribute in XML input, (valid are 'w','s','e','n')''))
      else if critname = ''version'' then
        Go (L\<lparr>vinfo := xml_get criteria ''v''\<rparr>, True, bbFlag, tFlag)
      else if critname = ''temporal'' then
        (let tst = xml_get_default criteria ''type'' [];
             L1 = L\<lparr>temporalSearchType := Some tst\<rparr>
         in if length tst = 0 then
              ReturnFalse
                (tab @ ''Missing temporal search type in XML request file, valid are ('static', 'recurring')'')
            else if tst = ''static'' then
              lbind (lds_static L1 criteria) (\<lambda>L2. Go (L2, vFlag, bbFlag, True))
            else if tst = ''recurring'' then
              lbind (lds_recurring L1 criteria) (\<lambda>L2. Go (L2, vFlag, bbFlag, True))
            else
              ReturnFalse
                (tab @ ''Invalid temporal search type, (valid are 'static', 'recurring')''))
      else
        ReturnFalse
          (tab @ ''Invalid dataset search criteria ('' @ critname
           @ '') specified in XML download request file''))"

fun lds_criteria_loop ::
  "lds_locals \<times> bool \<times> bool \<times> bool \<Rightarrow> xml list \<Rightarrow> (lds_locals \<times> bool \<times> bool \<times> bool) loaded" where
  "lds_criteria_loop st [] = Go st"
| "lds_criteria_loop st (criteria # rest) =
     lbind (lds_criteria st criteria) (\<lambda>st1. lds_criteria_loop st1 rest)"

text \<open>
  The constructor of \<^verbatim>\<open>ECHOdsQuery\<close> concatenates strings, and \<^verbatim>\<open>None\<close> for the short
  name or the version raises TypeError; a key missing from the bounding box dictionary
  raises KeyError. The days are rendered by \<^verbatim>\<open>str\<close>: the empty string they were
  initialised with stays empty.
\<close>

definition str_concat_opt :: "string \<Rightarrow> string option \<Rightarrow> pyexn + string" where
  "str_concat_opt a b = (case b of None \<Rightarrow> Inl TypeError | Some x \<Rightarrow> Inr (a @ x))"

definition dict_getitem :: "(string \<rightharpoonup> string) \<Rightarrow> string \<Rightarrow> pyexn + string" where
  "dict_getitem d k = (case d k of None \<Rightarrow> Inl KeyError | Some v \<Rightarrow> Inr v)"

definition str_day :: "int option \<Rightarrow> string" where
  "str_day d = (case d of None \<Rightarrow> [] | Some i \<Rightarrow> py_str_int i)"

definition new_ECHOdsQuery ::
  "string option \<Rightarrow> string option \<Rightarrow> (string \<rightharpoonup> string) \<Rightarrow> string \<Rightarrow> string \<Rightarrow> string \<Rightarrow>
   int option \<Rightarrow> int option \<Rightarrow> pyexn + ECHOdsQuery" where
  "new_ECHOdsQuery sname ver bbox tst sdt edt tsd ted =
     pybind (str_concat_opt ''?shortName='' sname) (\<lambda>sn.
     pybind (str_concat_opt ''&version='' ver) (\<lambda>v.
     pybind (dict_getitem bbox ''w'') (\<lambda>w.
     pybind (dict_getitem bbox ''s'') (\<lambda>s.
     pybind (dict_getitem bbox ''e'') (\<lambda>e.
     pybind (dict_getitem bbox ''n'') (\<lambda>n.
     Inr \<lparr>snStr = sn, vStr = v,
          bbStr = ''&bounding_box='' @ w @ '','' @ s @ '','' @ e @ '','' @ n,
          tStr = (if tst = ''static'' then ''&temporal='' @ sdt @ '','' @ edt
                  else ''&temporal='' @ sdt @ '','' @ edt @ '','' @ str_day tsd
                       @ '','' @ str_day ted),
          q_w_bound = w, q_s_bound = s, q_e_bound = e, q_n_bound = n\<rparr>))))))"


text \<open>
  The body of the loop over the datasets, and \<^verbatim>\<open>ECHOrequest.loadDataSetQueries\<close>: the
  list of dataset queries when the method returns True.
\<close>

definition lds_dataset :: "lds_locals \<times> ECHOdsQuery list \<Rightarrow> xml \<Rightarrow> (lds_locals \<times> ECHOdsQuery list) loaded" where
  "lds_dataset st dataset =
     (let (L0, queries) = st; sname = xml_get dataset ''shortname'' in
      lbind (lds_criteria_loop (L0, False, False, False) (children dataset))
        (\<lambda>(L, vFlag, bbFlag, tFlag).
      if \<not> (bbFlag \<and> vFlag \<and> tFlag)
      then ReturnFalse (tab @ ''Missing bounding box, version, or temporal criteria in XML input'')
      else
        lbind (read_local ''temporalSearchType'' (temporalSearchType L)) (\<lambda>tst.
        lbind (lift_exn (new_ECHOdsQuery sname (vinfo L) (bb L) tst (sdatetime L) (edatetime L)
                           (temporal_start_day L) (temporal_end_day L))) (\<lambda>dsQuery.
        Go (L, queries @ [dsQuery])))))"

fun lds_dataset_loop :: "lds_locals \<times> ECHOdsQuery list \<Rightarrow> xml list \<Rightarrow> (lds_locals \<times> ECHOdsQuery list) loaded" where
  "lds_dataset_loop st [] = Go st"
| "lds_dataset_loop st (dataset # rest) =
     lbind (lds_dataset st dataset) (\<lambda>st1. lds_dataset_loop st1 rest)"

definition loadDataSetQueries :: "xml \<Rightarrow> ECHOdsQuery list loaded" where
  "loadDataSetQueries edrRoot =
     lbind (lds_dataset_loop (lds_initial, []) (children edrRoot)) (\<lambda>(L, queries). Go queries)"

section \<open>Merging the pending downloads\<close>

text \<open>\<^verbatim>\<open>ECHOrequest.inCollections\<close>: the index of the first collection with the id, or -1.\<close>

fun inCollections_loop :: "'f ECHOcollection list \<Rightarrow> string \<Rightarrow> int \<Rightarrow> int" where
  "inCollections_loop [] cid index = -1"
| "inCollections_loop (c # cs) cid index =
     (if collID c = cid then index else inCollections_loop cs cid (index + 1))"

definition inCollections :: "'f ECHOrequest \<Rightarrow> string \<Rightarrow> int" where
  "inCollections ero cid = inCollections_loop (collContainer ero) cid 0"

text \<open>
  \<^verbatim>\<open>ECHOrequest.inGranules\<close>. The index runs on over the granules of every collection with
  the id \<open>cid\<close>: \<open>Inl\<close> is the \<^verbatim>\<open>return index\<close> inside the inner loop, \<open>Inr\<close> the index
  after it.
\<close>

fun inGranules_inner :: "'f ECHOgranule list \<Rightarrow> string \<Rightarrow> int \<Rightarrow> int + int" where
  "inGranules_inner [] gid index = Inr index"
| "inGranules_inner (g # gs) gid index =
     (if egid g = gid then Inl index else inGranules_inner gs gid (index + 1))"

fun inGranules_loop :: "'f ECHOcollection list \<Rightarrow> string \<Rightarrow> string \<Rightarrow> int \<Rightarrow> int" where
  "inGranules_loop [] cid gid index = -1"
| "inGranules_loop (coll # colls) cid gid index =
     (if collID coll = cid
      then (case inGranules_inner (granContainer coll) gid index of
              Inl found \<Rightarrow> found
            | Inr index' \<Rightarrow> inGranules_loop colls cid gid index')
      else inGranules_loop colls cid gid index)"

definition inGranules :: "'f ECHOrequest \<Rightarrow> string \<Rightarrow> string \<Rightarrow> int" where
  "inGranules ero cid gid = inGranules_loop (collContainer ero) cid gid 0"

text \<open>
  \<^verbatim>\<open>ECHOrequest.loadPendDwnld\<close>, the body of the loop over the granules of one pending
  collection. The fields are read and parsed in the order of the source; \<open>numDwnldTrys\<close> is
  the stored count plus 1, and both branches of the merge pass \<open>numDwnldTrys + 1\<close> on.
\<close>

fun loadPend_polyPoints :: "(string \<Rightarrow> 'f option) \<Rightarrow> xml list \<Rightarrow> pyexn + ('f \<times> 'f) list" where
  "loadPend_polyPoints float_of [] = Inr []"
| "loadPend_polyPoints float_of (pp # pps) =
     pybind (pybind (find_text pp ''latitude'') (py_float float_of)) (\<lambda>lat.
     pybind (pybind (find_text pp ''longitude'') (py_float float_of)) (\<lambda>lon.
     pybind (loadPend_polyPoints float_of pps) (\<lambda>rest.
     Inr ((lat, lon) # rest))))"

definition loadPend_spatial ::
  "(string \<Rightarrow> ('f::{numeral,uminus}) option) \<Rightarrow> xml \<Rightarrow>
   pyexn + int \<times> ('f \<times> 'f) list \<times> 'f \<times> 'f \<times> 'f \<times> 'f" where
  "loadPend_spatial float_of g =
     pybind (on_found (xml_find g ''spatial'')) (\<lambda>spatial.
     case xml_find spatial ''polyPoints'' of
       None \<Rightarrow>
         pybind (pybind (find_text spatial ''w_bound'') (py_float float_of)) (\<lambda>w.
         pybind (pybind (find_text spatial ''s_bound'') (py_float float_of)) (\<lambda>s.
         pybind (pybind (find_text spatial ''e_bound'') (py_float float_of)) (\<lambda>e.
         pybind (pybind (find_text spatial ''n_bound'') (py_float float_of)) (\<lambda>n.
         Inr (0, [], w, s, e, n)))))
     | Some ppts \<Rightarrow>
         pybind (loadPend_polyPoints float_of (children ppts)) (\<lambda>polyPoints.
         Inr (1, polyPoints, - 180, - 90, 180, 90)))"

definition loadPend_granule ::
  "(string \<Rightarrow> ('f::{numeral,uminus}) option) \<Rightarrow> string \<Rightarrow> int \<Rightarrow> 'f ECHOrequest \<Rightarrow> xml \<Rightarrow>
   pyexn + 'f ECHOrequest" where
  "loadPend_granule float_of cid collIndex ero g =
     pybind (find_text g ''granID'') (\<lambda>granID.
     pybind (pybind (find_text g ''dwnldtrys'') py_int) (\<lambda>stored.
     let numDwnldTrys = stored + 1 in
     pybind (find_text g ''granuleUR'') (\<lambda>granuleUR.
     pybind (pybind (find_text g ''sizeMB'') (py_float float_of)) (\<lambda>sizeMB.
     pybind (find_text g ''begDateTime'') (\<lambda>GbegDateTime.
     pybind (find_text g ''endDateTime'') (\<lambda>GendDateTime.
     pybind (loadPend_spatial float_of g) (\<lambda>(hasPolyPoints, polyPoints, w, s, e, n).
     pybind (find_text g ''accessURL'') (\<lambda>url.
     let accessURLs = [(url, ''NoMimeType'')] in
     pybind (find_text g ''localFileName'') (\<lambda>localFileName.
     let granIndex = inGranules ero cid granID in
     pybind (py_getitem (collContainer ero) collIndex) (\<lambda>coll.
     if granIndex = -1 then
       Inr (ero\<lparr>collContainer := py_setitem (collContainer ero) collIndex
              (coll\<lparr>granContainer := granContainer coll @
                 [new_ECHOgranule granID granuleUR sizeMB GbegDateTime GendDateTime
                    hasPolyPoints polyPoints w s e n accessURLs localFileName
                    (numDwnldTrys + 1)]\<rparr>)\<rparr>)
     else
       pybind (py_getitem (granContainer coll) granIndex) (\<lambda>gran.
       Inr (ero\<lparr>collContainer := py_setitem (collContainer ero) collIndex
              (coll\<lparr>granContainer := py_setitem (granContainer coll) granIndex
                 (gran\<lparr>numDloadTrys := numDwnldTrys + 1\<rparr>)\<rparr>)\<rparr>))))))))))))"

fun loadPend_granules ::
  "(string \<Rightarrow> ('f::{numeral,uminus}) option) \<Rightarrow> string \<Rightarrow> int \<Rightarrow> 'f ECHOrequest \<Rightarrow> xml list \<Rightarrow>
   pyexn + 'f ECHOrequest" where
  "loadPend_granules float_of cid collIndex ero [] = Inr ero"
| "loadPend_granules float_of cid collIndex ero (g # gs) =
     pybind (loadPend_granule float_of cid collIndex ero g) (\<lambda>ero'.
     loadPend_granules float_of cid collIndex ero' gs)"

text \<open>
  The body of the loop over the pending collections: a collection that is not in the
  container is appended (and the counter incremented), then its granules are merged.
\<close>

definition loadPend_collection ::
  "(string \<Rightarrow> ('f::{numeral,uminus}) option) \<Rightarrow> 'f ECHOrequest \<Rightarrow> xml \<Rightarrow> pyexn + 'f ECHOrequest" where
  "loadPend_collection float_of ero c =
     pybind (find_text c ''collID'') (\<lambda>cid.
     pybind
       (if inCollections ero cid = -1 then
          pybind (find_text c ''shortName'') (\<lambda>sn.
          pybind (find_text c ''archCenter'') (\<lambda>archCtr.
          pybind (find_text c ''collDesc'') (\<lambda>desc.
          pybind (find_text c ''begDateTime'') (\<lambda>CbegDateTime.
          pybind (find_text c ''endDateTime'') (\<lambda>CendDateTime.
          pybind (find_text c ''doi'') (\<lambda>d.
          let ero' = ero\<lparr>collContainer := collContainer ero @
                           [new_ECHOcollection cid sn archCtr desc CbegDateTime CendDateTime d],
                         numCollections := numCollections ero + 1\<rparr>
          in Inr (ero', int (numCollections ero') - 1)))))))
        else Inr (ero, inCollections ero cid))
       (\<lambda>(ero', collIndex).
     pybind (on_found (xml_find c ''granules'')) (\<lambda>granRoot.
     loadPend_granules float_of cid collIndex ero' (children granRoot))))"

fun loadPend_collections ::
  "(string \<Rightarrow> ('f::{numeral,uminus}) option) \<Rightarrow> 'f ECHOrequest \<Rightarrow> xml list \<Rightarrow> pyexn + 'f ECHOrequest" where
  "loadPend_collections float_of ero [] = Inr ero"
| "loadPend_collections float_of ero (c # cs) =
     pybind (loadPend_collection float_of ero c) (\<lambda>ero'.
     loadPend_collections float_of ero' cs)"

text \<open>
  \<^verbatim>\<open>ECHOrequest.loadPendDwnld\<close>. The argument is the result of parsing the pending download
  file: \<open>None\<close> is the ParseError, on which the source raises SystemExit.
\<close>

definition loadPendDwnld ::
  "(string \<Rightarrow> ('f::{numeral,uminus}) option) \<Rightarrow> 'f ECHOrequest \<Rightarrow> xml option \<Rightarrow> pyexn + 'f ECHOrequest" where
  "loadPendDwnld float_of ero pendTree =
     (case pendTree of
        None \<Rightarrow> Inl SystemExit
      | Some pendRoot \<Rightarrow> loadPend_collections float_of ero (xml_findall pendRoot ''collection''))"

section \<open>The download feasibility check\<close>

text \<open>
  \<^verbatim>\<open>ECHOdownloader.downloadOk\<close>. The loop runs over \<^verbatim>\<open>range(ero.numCollections)\<close> and indexes
  the container, so a counter beyond the container's length raises IndexError. The lines
  written to the log are returned with the verdict.
\<close>

datatype 'f dl_log =
    Requesting nat 'f
  | WarnTotalNotPositive
  | ErrDiskSpace 'f 'f
  | ErrDownloadLimit 'f 'f

fun downloadOk_totals ::
  "('f::{zero,plus}) ECHOcollection list \<Rightarrow> nat \<Rightarrow> nat \<Rightarrow> nat \<times> 'f \<Rightarrow> pyexn + nat \<times> 'f" where
  "downloadOk_totals cs i 0 acc = Inr acc"
| "downloadOk_totals cs i (Suc k) (totalNumGranules, totalDataSizeMB) =
     (if i < length cs
      then downloadOk_totals cs (Suc i) k
             (totalNumGranules + numGranules (cs ! i),
              totalDataSizeMB + getCollSizeMB (cs ! i))
      else Inl IndexError)"

definition downloadOk :: "('f::{zero,plus,linorder}) ECHOrequest \<Rightarrow> pyexn + bool \<times> 'f dl_log list" where
  "downloadOk ero =
     (case downloadOk_totals (collContainer ero) 0 (numCollections ero) (0, 0) of
        Inl e \<Rightarrow> Inl e
      | Inr (totalNumGranules, totalDataSizeMB) \<Rightarrow>
          (let log = [Requesting totalNumGranules totalDataSizeMB] in
           if totalDataSizeMB \<le> 0 then Inr (True, log @ [WarnTotalNotPositive])
           else if totalDataSizeMB \<ge> availDiskSpaceMB ero
             then Inr (False, log @ [ErrDiskSpace totalDataSizeMB (availDiskSpaceMB ero)])
           else if totalDataSizeMB > dwnloadLimit ero
             then Inr (False, log @ [ErrDownloadLimit totalDataSizeMB (dwnloadLimit ero)])
           else Inr (True, log)))"

text \<open>
  The state of an \<^verbatim>\<open>ECHOdownloader\<close>: the download queue of (egid, url, filename) tuples and
  the status dictionary. \<^verbatim>\<open>ECHOdownloader.__init__\<close> raises SystemExit when \<^verbatim>\<open>downloadOk\<close>
  says no, so no downloader object exists then and none of its methods can run.
\<close>

record ECHOdownloader =
  rootDir :: string
  granuleQueue :: "(string \<times> string \<times> string) list"
  granuleStatus :: "string \<rightharpoonup> int"

definition new_ECHOdownloader ::
  "('f::{zero,plus,linorder}) ECHOrequest \<Rightarrow> pyexn + ECHOdownloader \<times> 'f dl_log list" where
  "new_ECHOdownloader ero =
     (case downloadOk ero of
        Inl e \<Rightarrow> Inl e
      | Inr (ok, log) \<Rightarrow>
          if \<not> ok then Inl SystemExit
          else Inr (\<lparr>rootDir = directoryRoot ero, granuleQueue = [],
                     granuleStatus = Map.empty\<rparr>, log))"

text \<open>The total that \<^verbatim>\<open>downloadOk\<close> computes when the counter agrees with the container.\<close>

definition totalDataSizeMB :: "('f::{zero,plus}) ECHOrequest \<Rightarrow> 'f" where
  "totalDataSizeMB ero =
     foldl (\<lambda>t c. t + getCollSizeMB c) 0 (collContainer ero)"

section \<open>The environment: files and the local database\<close>

text \<open>
  The state outside the program: the files by name, the state of the database, and the
  record of what the program did to them (every statement passed to \<^verbatim>\<open>cursor.execute\<close> for
  an insert with its outcome, every query, every file removed or rewritten), in order. The
  behaviour of the outside is a parameter: what a query returns and whether an insert
  succeeds (\<open>None\<close> is \<^verbatim>\<open>MySQLdb.Error\<close>), and which files can be opened or removed.
\<close>

datatype filedata = XmlDoc xml | OtherData

datatype event =
    Executed string bool
  | Queried string
  | Removed string
  | Rewrote string

record 'db sys =
  files :: "string \<rightharpoonup> filedata"
  db :: 'db
  events :: "event list"

record 'db env =
  db_select :: "'db \<Rightarrow> string \<Rightarrow> string list list option"
  db_insert :: "'db \<Rightarrow> string \<Rightarrow> 'db option"
  open_read_ok :: "string \<Rightarrow> bool"
  open_write_ok :: "string \<Rightarrow> bool"
  remove_ok :: "string \<Rightarrow> bool"




text \<open>
  \<^verbatim>\<open>os.access(path, os.F_OK)\<close> and \<^verbatim>\<open>os.remove(path)\<close>; removing a file that is not there
  or that cannot be removed raises OSError.
\<close>

definition os_access_F_OK :: "'db sys \<Rightarrow> string \<Rightarrow> bool" where
  "os_access_F_OK s path = (files s path \<noteq> None)"

definition os_remove :: "'db env \<Rightarrow> 'db sys \<Rightarrow> string \<Rightarrow> pyexn + 'db sys" where
  "os_remove env s path =
     (if files s path \<noteq> None \<and> remove_ok env path
      then Inr (s\<lparr>files := (files s)(path := None), events := events s @ [Removed path]\<rparr>)
      else Inl OSError)"

section \<open>The database update pass\<close>

















section \<open>The cleanup pass\<close>

text \<open>
  \<^verbatim>\<open>ECHOdownloader.cleanup\<close>: the local file of a granule whose download failed (status -1)
  is removed when it exists; when the removal raises OSError a warning is logged, otherwise
  a note. The lines written to the log are returned.
\<close>

definition cleanup_warning :: "'f ECHOgranule \<Rightarrow> string list" where
  "cleanup_warning g =
     [tab @ ''****WARNING: Download of granule '' @ egid g @ '' failed'' @ nl,
      tab @ ''But couldn't remove local file '' @ localFileName g @ nl]"

definition cleanup_info :: "'f ECHOgranule \<Rightarrow> string list" where
  "cleanup_info g =
     [tab @ ''***INFO: Download of granule '' @ egid g @ '' failed'' @ nl,
      tab @ ''Removed local file '' @ localFileName g @ nl]"

definition cleanup_granule ::
  "'db env \<Rightarrow> 'db sys \<times> string list \<Rightarrow> 'f ECHOgranule \<Rightarrow> 'db sys \<times> string list" where
  "cleanup_granule env sl g =
     (let (s, log) = sl in
      if downloadStatus g = -1 \<and> os_access_F_OK s (localFileName g) then
        (case os_remove env s (localFileName g) of
           Inl e \<Rightarrow> (s, log @ cleanup_warning g)
         | Inr s' \<Rightarrow> (s', log @ cleanup_info g))
      else (s, log))"

definition cleanup_collection ::
  "'db env \<Rightarrow> 'db sys \<times> string list \<Rightarrow> 'f ECHOcollection \<Rightarrow> 'db sys \<times> string list" where
  "cleanup_collection env sl c = foldl (cleanup_granule env) sl (granContainer c)"

definition cleanup :: "'db env \<Rightarrow> 'db sys \<Rightarrow> 'f ECHOrequest \<Rightarrow> 'db sys \<times> string list" where
  "cleanup env s ero =
     foldl (cleanup_collection env) (s, [''ECHOdownloader::cleanup'' @ nl]) (collContainer ero)"

text \<open>All granules of the working set, and the local file names of the failed downloads.\<close>

definition all_granules :: "'f ECHOrequest \<Rightarrow> 'f ECHOgranule list" where
  "all_granules ero = concat (map granContainer (collContainer ero))"

definition failed_files :: "'f ECHOrequest \<Rightarrow> string set" where
  "failed_files ero =
     localFileName ` set (filter (\<lambda>g. downloadStatus g = -1) (all_granules ero))"

section \<open>Replay of the pending database transactions\<close>






















section \<open>The catalog queries\<close>

text \<open>
  The ECHO web service is a parameter: for the URL of a dataset query the XML of the
  response (\<open>None\<close> when the content is no XML, the \<^verbatim>\<open>XMLSyntaxError\<close> of the source), for
  the URL of a granule query the \<^verbatim>\<open>echo-hits\<close> header, if there is one, and the XML of the
  response. A line of the log is a text or the dump of an element.
\<close>

record catalog =
  dataset_content :: "string \<Rightarrow> xml option"
  granule_reply :: "string \<Rightarrow> string option \<times> xml option"

datatype logline = Line string | Dump xml

text \<open>
  Chains of \<^verbatim>\<open>find\<close> calls ending in \<^verbatim>\<open>.text\<close>: AttributeError when one of the elements is
  missing. Inside \<^verbatim>\<open>try ... except AttributeError\<close> the missing element gives the default.
  \<^verbatim>\<open>resub('[Z]', '', s)\<close> removes every \<open>Z\<close>.
\<close>

fun find_chain :: "xml \<Rightarrow> string list \<Rightarrow> xml option" where
  "find_chain e [] = Some e"
| "find_chain e (t # ts) = (case xml_find e t of None \<Rightarrow> None | Some c \<Rightarrow> find_chain c ts)"

definition chain_text :: "xml \<Rightarrow> string list \<Rightarrow> pyexn + string" where
  "chain_text e ts = pybind (on_found (find_chain e ts)) (\<lambda>c. Inr (xtext c))"





text \<open>
  \<^verbatim>\<open>ECHOclient.makeDatasetQuery\<close>: a response that is no XML is logged and replaced by an
  empty \<^verbatim>\<open>results\<close> element.
\<close>

definition echoCollectionURL :: string where
  "echoCollectionURL = ''https://api.echo.nasa.gov/catalog-rest/echo_catalog/datasets''"


definition empty_results :: xml where
  "empty_results = Element ''results'' [] [] []"

definition dataset_syntax_error :: string where
  "dataset_syntax_error =
     ''>>>>Error: ECHOclient.makeDatasetQuery : XML Syntax Error on dataset query response''"

definition datasetQueryURL :: "string \<Rightarrow> string \<Rightarrow> string" where
  "datasetQueryURL dsQueryStr responseFormat =
     echoCollectionURL @ ''.'' @ responseFormat @ dsQueryStr"

definition makeDatasetQuery :: "catalog \<Rightarrow> string \<Rightarrow> string \<Rightarrow> xml \<times> logline list" where
  "makeDatasetQuery cat dsQueryStr responseFormat =
     (let queryURL = datasetQueryURL dsQueryStr responseFormat in
      case dataset_content cat queryURL of
        None \<Rightarrow>
          (empty_results,
           [Line dataset_syntax_error])
      | Some respRoot \<Rightarrow> (respRoot, []))"















section \<open>The transfer loop\<close>

text \<open>
  \<^verbatim>\<open>ECHOdownloader.multidownload\<close>. The ten pre-allocated curl objects are the handles
  \<open>0, \<dots>, 9\<close>. The state of the loop: the copy of the queue, the free handles, the handles
  added to the multi object with the item each of them transfers (the transfers in
  flight), the status dictionary and the counter. \<open>max_inflight\<close> is not in the source: it
  records the largest number of transfers that were in flight at the same time.
\<close>

type_synonym item = "string \<times> string \<times> string"

record md_state =
  md_queue :: "item list"
  md_freelist :: "nat list"
  md_stack :: "(nat \<times> item) list"
  md_status :: "string \<rightharpoonup> int"
  num_processed :: nat
  max_inflight :: nat

definition concurrent_conns :: nat where
  "concurrent_conns = 10"

definition md_init :: "item list \<Rightarrow> (string \<rightharpoonup> int) \<Rightarrow> md_state" where
  "md_init queue status =
     \<lparr>md_queue = queue, md_freelist = [0 ..< concurrent_conns], md_stack = [],
      md_status = status, num_processed = 0, max_inflight = 0\<rparr>"

text \<open>
  \<^verbatim>\<open>while queue and freelist\<close>: the first item of the queue is given to the last handle
  of the free list and the handle is added to the multi object.
\<close>

fun fill_loop :: "item list \<Rightarrow> nat list \<Rightarrow> (nat \<times> item) list \<Rightarrow>
    item list \<times> nat list \<times> (nat \<times> item) list" where
  "fill_loop [] freelist stack = ([], freelist, stack)"
| "fill_loop (it # queue) freelist stack =
     (if freelist = [] then (it # queue, freelist, stack)
      else fill_loop queue (butlast freelist) (stack @ [(last freelist, it)]))"

definition md_fill :: "md_state \<Rightarrow> md_state" where
  "md_fill s =
     (let (queue, freelist, stack) = fill_loop (md_queue s) (md_freelist s) (md_stack s) in
      s\<lparr>md_queue := queue, md_freelist := freelist, md_stack := stack,
        max_inflight := max (max_inflight s) (length stack)\<rparr>)"

text \<open>
  The transport is a parameter: for every turn of the outer loop the results of the calls
  of \<^verbatim>\<open>m.info_read()\<close> in that turn, each a list of handles that finished well and a list
  of handles that finished with an error. The multi object reports only handles that are
  on its stack, and each of them once: \<open>info_read\<close> keeps of a reported list what the stack
  holds. A finished handle is removed from the multi object, the status of its granule is
  set (1 or -1) and the handle goes back to the free list; the counter grows by the lengths
  of the two lists.
\<close>

definition md_finish :: "int \<Rightarrow> md_state \<Rightarrow> nat \<Rightarrow> md_state" where
  "md_finish code s c =
     (case map_of (md_stack s) c of
        None \<Rightarrow> s
      | Some (gid, u, f) \<Rightarrow>
          s\<lparr>md_stack := filter (\<lambda>p. fst p \<noteq> c) (md_stack s),
            md_status := (md_status s)(gid \<mapsto> code),
            md_freelist := md_freelist s @ [c]\<rparr>)"

definition info_read :: "md_state \<Rightarrow> nat list \<times> nat list \<Rightarrow> nat list \<times> nat list" where
  "info_read s reported =
     (let ok_list = remdups (filter (\<lambda>c. map_of (md_stack s) c \<noteq> None) (fst reported));
          err_list = remdups (filter (\<lambda>c. map_of (md_stack s) c \<noteq> None \<and> c \<notin> set ok_list)
                                (snd reported))
      in (ok_list, err_list))"

definition md_info :: "md_state \<Rightarrow> nat list \<times> nat list \<Rightarrow> md_state" where
  "md_info s reported =
     (let (ok_list, err_list) = info_read s reported;
          s1 = foldl (md_finish 1) s ok_list;
          s2 = foldl (md_finish (- 1)) s1 err_list
      in s2\<lparr>num_processed := num_processed s2 + length ok_list + length err_list\<rparr>)"

text \<open>One turn of the outer loop, and the loop with a bound on the number of turns.\<close>

definition md_round :: "(nat \<Rightarrow> (nat list \<times> nat list) list) \<Rightarrow> nat \<Rightarrow> md_state \<Rightarrow> md_state" where
  "md_round transport r s = foldl md_info (md_fill s) (transport r)"

fun md_loop :: "nat \<Rightarrow> (nat \<Rightarrow> (nat list \<times> nat list) list) \<Rightarrow> nat \<Rightarrow> nat \<Rightarrow> md_state \<Rightarrow>
    bool \<times> md_state" where
  "md_loop 0 transport r num_urls s = (\<not> num_processed s < num_urls, s)"
| "md_loop (Suc fuel) transport r num_urls s =
     (if num_processed s < num_urls
      then md_loop fuel transport (Suc r) num_urls (md_round transport r s)
      else (True, s))"

text \<open>
  \<^verbatim>\<open>multidownload\<close> on the queue of the downloader. \<open>md_run\<close> is the loop from its first
  state: whether it has ended within the bound, and the state it has reached.
  \<open>multidownload\<close> is \<open>None\<close> when the loop has not ended within the bound, otherwise the
  downloader with the new status dictionary.
\<close>

definition md_run ::
  "nat \<Rightarrow> (nat \<Rightarrow> (nat list \<times> nat list) list) \<Rightarrow> ECHOdownloader \<Rightarrow> bool \<times> md_state" where
  "md_run fuel transport dl =
     md_loop fuel transport 0 (length (granuleQueue dl))
       (md_init (granuleQueue dl) (granuleStatus dl))"






section \<open>Example inputs\<close>

text \<open>
  The request of the end-to-end scenario: one collection \<open>C1\<close> with the granules \<open>G1\<close>
  (100 MB) and \<open>G2\<close> (50 MB), a limit of 1000 MB and 100 MB of disk space; and the same
  request when the catalog gave no sizes.
\<close>

definition ex_granule :: "string \<Rightarrow> int \<Rightarrow> int ECHOgranule" where
  "ex_granule gid sz =
     new_ECHOgranule gid ''UR'' sz ''2020-01-01T00:00:00'' ''2020-01-02T00:00:00'' 0 []
       (-180) (-90) 180 90 [(''http://host/'' @ gid @ ''.hdf'', ''NoMimeType'')] [] 1"

definition ex_collection :: "int list \<Rightarrow> int ECHOcollection" where
  "ex_collection szs =
     (new_ECHOcollection ''C1'' ''SN'' ''AC'' ''desc'' ''null'' ''null'' ''NoDOIauth/NoDOI'')
       \<lparr>granContainer := map (\<lambda>(gid, sz). ex_granule gid sz) (zip [''G1'', ''G2''] szs),
        numGranules := length szs\<rparr>"

definition ex_request :: "int list \<Rightarrow> int \<Rightarrow> int ECHOrequest" where
  "ex_request szs avail =
     \<lparr>maxDataFiles = 1000, dwnloadLimit = 1000, availDiskSpaceMB = avail,
      directoryRoot = ''/data'', dbFlag = ''True'', dataSetQueries = [],
      numDatasetQueries = 0, numCollections = 1,
      collContainer = [ex_collection szs]\<rparr>"

text \<open>
  A pending download file with one collection \<open>C1\<close> and the given granules, each stored
  with one download try; the numbers of the examples are integers.
\<close>

definition leaf :: "string \<Rightarrow> string \<Rightarrow> xml" where
  "leaf t s = Element t [] s []"

definition node :: "string \<Rightarrow> xml list \<Rightarrow> xml" where
  "node t cs = Element t [] [] cs"

definition ex_float_of :: "string \<Rightarrow> int option" where
  "ex_float_of s = (case py_int s of Inl e \<Rightarrow> None | Inr n \<Rightarrow> Some n)"

definition ex_pend_granule :: "string \<Rightarrow> string \<Rightarrow> xml" where
  "ex_pend_granule gid trys =
     node ''granule''
       [leaf ''granID'' gid, leaf ''dwnldtrys'' trys, leaf ''dwnldstat'' ''-1'',
        leaf ''granuleUR'' ''UR'', leaf ''sizeMB'' ''100'',
        leaf ''begDateTime'' ''2020-01-01T00:00:00'', leaf ''endDateTime'' ''2020-01-02T00:00:00'',
        node ''spatial'' [leaf ''w_bound'' ''-180'', leaf ''s_bound'' ''-90'',
                          leaf ''e_bound'' ''180'', leaf ''n_bound'' ''90''],
        leaf ''accessURL'' (''http://host/'' @ gid @ ''.hdf''),
        leaf ''localFileName'' (''/data/AC/SN/2020/001/'' @ gid @ ''.hdf'')]"

definition ex_pend_file :: "string list \<Rightarrow> xml" where
  "ex_pend_file gids =
     node ''data''
       [node ''collection''
          [leaf ''collID'' ''C1'', leaf ''shortName'' ''SN'', leaf ''archCenter'' ''AC'',
           leaf ''collDesc'' ''desc'', leaf ''begDateTime'' ''null'', leaf ''endDateTime'' ''null'',
           leaf ''doi'' ''NoDOIauth/NoDOI'',
           node ''granules'' (map (\<lambda>gid. ex_pend_granule gid ''1'') gids)]]"

text \<open>
  A database that records the statements it accepted and rejects those that \<open>fails\<close>
  selects, with no row for any query; and a state with the given files and an empty
  database. In \<open>ex_downloaded\<close> both granules of \<open>C1\<close> are downloaded and \<open>G1\<close> has two
  polygon points.
\<close>

definition ex_env :: "(string \<Rightarrow> bool) \<Rightarrow> string list env" where
  "ex_env fails =
     \<lparr>db_select = (\<lambda>d q. Some []),
      db_insert = (\<lambda>d q. if fails q then None else Some (d @ [q])),
      open_read_ok = (\<lambda>p. True), open_write_ok = (\<lambda>p. True), remove_ok = (\<lambda>p. True)\<rparr>"

definition ex_sys :: "(string \<rightharpoonup> filedata) \<Rightarrow> string list sys" where
  "ex_sys fs = \<lparr>files = fs, db = [], events = []\<rparr>"



text \<open>
  The working set after the downloads: \<open>C1\<close> with the granules \<open>G1\<close> and \<open>G2\<close>, each
  with a download status and a local file name.
\<close>

definition ex_G :: "string \<Rightarrow> int \<Rightarrow> int \<Rightarrow> string \<Rightarrow> int ECHOgranule" where
  "ex_G gid sz st f = (ex_granule gid sz)\<lparr>downloadStatus := st, localFileName := f\<rparr>"

definition ex_after_download :: "int \<Rightarrow> string \<Rightarrow> int \<Rightarrow> string \<Rightarrow> int ECHOrequest" where
  "ex_after_download st1 f1 st2 f2 =
     (ex_request [100, 50] 1000)
       \<lparr>collContainer :=
          [(ex_collection [100, 50])
             \<lparr>granContainer :=
                [(ex_granule ''G1'' 100)\<lparr>downloadStatus := st1, localFileName := f1\<rparr>,
                 (ex_granule ''G2'' 50)\<lparr>downloadStatus := st2, localFileName := f2\<rparr>]\<rparr>]\<rparr>"











text \<open>
  A download request: datasets with a bounding box, a version and a recurring temporal
  criterion with the given children.
\<close>

definition ex_year :: "string \<Rightarrow> string \<Rightarrow> xml" where
  "ex_year ys ye = Element ''year'' [(''yr_start'', ys), (''yr_end'', ye)] [] []"

definition ex_start :: "string \<Rightarrow> string \<Rightarrow> string \<Rightarrow> xml" where
  "ex_start m d t =
     Element ''start'' [(''mon_start'', m), (''day_start'', d), (''tim_start'', t)] [] []"

definition ex_end :: "string \<Rightarrow> string \<Rightarrow> string \<Rightarrow> xml" where
  "ex_end m d t = Element ''end'' [(''mon_end'', m), (''day_end'', d), (''tim_end'', t)] [] []"

definition ex_dataset :: "string \<Rightarrow> xml list \<Rightarrow> xml" where
  "ex_dataset sname tcrits =
     Element ''dataset'' [(''shortname'', sname)] []
       [Element ''boundingbox''
          [(''w'', ''-10''), (''s'', ''-10''), (''e'', ''10''), (''n'', ''10'')] [] [],
        Element ''version'' [(''v'', ''1'')] [] [],
        Element ''temporal'' [(''type'', ''recurring'')] [] tcrits]"

definition ex_edr :: "xml list \<Rightarrow> xml" where
  "ex_edr datasets = Element ''data'' [(''useDB'', ''True''), (''dbRoot'', ''/data'')] [] datasets"





definition ex_rectangle :: xml where
  "ex_rectangle =
     node ''Geometry''
       [node ''BoundingRectangle''
          [leaf ''WestBoundingCoordinate'' ''-5'', leaf ''NorthBoundingCoordinate'' ''5'',
           leaf ''EastBoundingCoordinate'' ''5'', leaf ''SouthBoundingCoordinate'' ''-5'']]"


text \<open>
  Twelve items for the transfer loop, more than there are handles. The example transport
  reports the handles 5 to 9 in the even turns, in two calls, and the handles 0 to 4 in the
  odd turns; some transfers end well and some with an error.
\<close>

definition ex_queue :: "item list" where
  "ex_queue =
     [(''G01'', ''https://e/01.nc'', ''/data/01.nc''), (''G02'', ''https://e/02.nc'', ''/data/02.nc''),
      (''G03'', ''https://e/03.nc'', ''/data/03.nc''), (''G04'', ''https://e/04.nc'', ''/data/04.nc''),
      (''G05'', ''https://e/05.nc'', ''/data/05.nc''), (''G06'', ''https://e/06.nc'', ''/data/06.nc''),
      (''G07'', ''https://e/07.nc'', ''/data/07.nc''), (''G08'', ''https://e/08.nc'', ''/data/08.nc''),
      (''G09'', ''https://e/09.nc'', ''/data/09.nc''), (''G10'', ''https://e/10.nc'', ''/data/10.nc''),
      (''G11'', ''https://e/11.nc'', ''/data/11.nc''), (''G12'', ''https://e/12.nc'', ''/data/12.nc'')]"

definition ex_transfers :: "ECHOdownloader" where
  "ex_transfers = \<lparr>rootDir = ''/data'', granuleQueue = ex_queue, granuleStatus = Map.empty\<rparr>"

definition ex_transport :: "nat \<Rightarrow> (nat list \<times> nat list) list" where
  "ex_transport r =
     (if even r then [([9, 8], [7]), ([6], [5])] else [([0, 1], [2, 3, 4])])"

section \<open>Properties of the download feasibility check\<close>

lemma downloadOk_totals_eq:
  "i + k \<le> length cs \<Longrightarrow>
   downloadOk_totals cs i k (n, t) =
     Inr (foldl (\<lambda>m c. m + numGranules c) n (take k (drop i cs)),
          foldl (\<lambda>t c. t + getCollSizeMB c) t (take k (drop i cs)))"
proof (induction k arbitrary: i n t)
  case 0
  then show ?case by simp
next
  case (Suc k)
  then have lt: "i < length cs" by simp
  then have d: "drop i cs = cs ! i # drop (Suc i) cs"
    by (simp add: Cons_nth_drop_Suc)
  from Suc.prems have "Suc i + k \<le> length cs" by simp
  from Suc.IH [OF this] lt show ?case by (simp add: d)
qed

lemma downloadOk_total:
  assumes "numCollections ero = length (collContainer ero)"
  shows "downloadOk_totals (collContainer ero) 0 (numCollections ero) (0, 0) =
     Inr (foldl (\<lambda>m c. m + numGranules c) 0 (collContainer ero), totalDataSizeMB ero)"
  using downloadOk_totals_eq [of 0 "numCollections ero" "collContainer ero" 0 0] assms
  by (simp add: totalDataSizeMB_def)

text \<open>
  Claim C4. The collection counter equals the length of the container (every append in the
  source increments it), the disk space that \<^verbatim>\<open>statvfs\<close> reports is not negative and
  \<^verbatim>\<open>validateRequest\<close> has let only a positive download limit through. Then a total
  requested size above the available disk space or above the download limit makes
  \<^verbatim>\<open>downloadOk\<close> return False, and constructing the downloader raises SystemExit, so that
  none of its methods (the directory creation of \<^verbatim>\<open>downloadGranules\<close> among them) runs; a
  total of at most 0 makes \<^verbatim>\<open>downloadOk\<close> return True after the warning, and the
  downloader is constructed.
\<close>

theorem downloadOk_feasibility:
  fixes ero :: "('f::{zero,plus,linorder}) ECHOrequest"
  assumes cnt: "numCollections ero = length (collContainer ero)"
      and avail: "0 \<le> availDiskSpaceMB ero"
      and limit: "0 < dwnloadLimit ero"
  shows "(totalDataSizeMB ero > availDiskSpaceMB ero \<or> totalDataSizeMB ero > dwnloadLimit ero
            \<longrightarrow> (\<exists>log. downloadOk ero = Inr (False, log)) \<and> new_ECHOdownloader ero = Inl SystemExit)
       \<and> (totalDataSizeMB ero \<le> 0
            \<longrightarrow> (\<exists>n. downloadOk ero =
                     Inr (True, [Requesting n (totalDataSizeMB ero), WarnTotalNotPositive]))
                \<and> (\<exists>dl log. new_ECHOdownloader ero = Inr (dl, log)))"
  using avail limit
  by (auto simp: downloadOk_def new_ECHOdownloader_def downloadOk_total [OF cnt] Let_def)

theorem downloadOk_feasibility_witness:
  "(numCollections (ex_request [100, 50] 100) = length (collContainer (ex_request [100, 50] 100))
    \<and> 0 \<le> availDiskSpaceMB (ex_request [100, 50] 100)
    \<and> 0 < dwnloadLimit (ex_request [100, 50] 100)
    \<and> totalDataSizeMB (ex_request [100, 50] 100) > availDiskSpaceMB (ex_request [100, 50] 100)
    \<and> new_ECHOdownloader (ex_request [100, 50] 100) = Inl SystemExit)
   \<and> (numCollections (ex_request [0, 0] 100) = length (collContainer (ex_request [0, 0] 100))
    \<and> 0 \<le> availDiskSpaceMB (ex_request [0, 0] 100)
    \<and> 0 < dwnloadLimit (ex_request [0, 0] 100)
    \<and> totalDataSizeMB (ex_request [0, 0] 100) \<le> 0
    \<and> (\<exists>dl log. new_ECHOdownloader (ex_request [0, 0] 100) = Inr (dl, log)))"
proof -
  have a: "totalDataSizeMB (ex_request [100, 50] 100) = 150"
    by (simp add: totalDataSizeMB_def ex_request_def ex_collection_def getCollSizeMB_def
        ex_granule_def new_ECHOgranule_def new_ECHOcollection_def)
  have b: "totalDataSizeMB (ex_request [0, 0] 100) = 0"
    by (simp add: totalDataSizeMB_def ex_request_def ex_collection_def getCollSizeMB_def
        ex_granule_def new_ECHOgranule_def new_ECHOcollection_def)
  have h: "numCollections (ex_request szs 100) = length (collContainer (ex_request szs 100))"
          "0 \<le> availDiskSpaceMB (ex_request szs 100)"
          "0 < dwnloadLimit (ex_request szs 100)" for szs
    by (simp_all add: ex_request_def)
  show ?thesis
    using downloadOk_feasibility [OF h, of "[100, 50]"] downloadOk_feasibility [OF h, of "[0, 0]"]
    by (simp add: a b h) (simp add: ex_request_def)
qed

section \<open>Properties of the merge of pending downloads\<close>

lemma pybind_eq_Inr: "pybind m f = Inr y \<longleftrightarrow> (\<exists>x. m = Inr x \<and> f x = Inr y)"
  by (cases m) auto

lemma inGranules_inner_Inl:
  "inGranules_inner gs gid index = Inl found \<Longrightarrow> index \<le> found \<and> found < index + int (length gs)"
proof (induction gs arbitrary: index)
  case Nil
  then show ?case by simp
next
  case (Cons g gs)
  show ?case
  proof (cases "egid g = gid")
    case True
    with Cons.prems show ?thesis by simp
  next
    case False
    with Cons.prems have "inGranules_inner gs gid (index + 1) = Inl found" by simp
    from Cons.IH [OF this] show ?thesis by simp
  qed
qed

lemma inGranules_inner_Inr:
  "inGranules_inner gs gid index = Inr index' \<Longrightarrow> index' = index + int (length gs)"
proof (induction gs arbitrary: index)
  case Nil
  then show ?case by simp
next
  case (Cons g gs)
  then have "inGranules_inner gs gid (index + 1) = Inr index'" by (simp split: if_splits)
  from Cons.IH [OF this] show ?case by simp
qed

lemma inGranules_loop_ge:
  "0 \<le> index \<Longrightarrow> inGranules_loop cs cid gid index = -1 \<or> index \<le> inGranules_loop cs cid gid index"
proof (induction cs arbitrary: index)
  case Nil
  then show ?case by simp
next
  case (Cons c cs)
  show ?case
  proof (cases "collID c = cid")
    case False
    with Cons show ?thesis by simp
  next
    case True
    show ?thesis
    proof (cases "inGranules_inner (granContainer c) gid index")
      case (Inl found)
      with True inGranules_inner_Inl [OF Inl] show ?thesis by simp
    next
      case (Inr index')
      from inGranules_inner_Inr [OF Inr] Cons.prems have "0 \<le> index'" "index \<le> index'" by simp_all
      with Cons.IH [of index'] True Inr show ?thesis by auto
    qed
  qed
qed

lemma inGranules_nonneg: "inGranules ero cid gid \<noteq> -1 \<Longrightarrow> 0 \<le> inGranules ero cid gid"
  using inGranules_loop_ge [of 0 "collContainer ero" cid gid] by (auto simp: inGranules_def)

lemma py_getitem_Inr:
  "0 \<le> i \<Longrightarrow> py_getitem xs i = Inr x \<longleftrightarrow> (i < int (length xs) \<and> x = xs ! nat i)"
  by (auto simp: py_getitem_def)

lemma py_setitem_nonneg: "0 \<le> i \<Longrightarrow> py_setitem xs i v = xs[nat i := v]"
  by (simp add: py_setitem_def)

text \<open>What one merge step does to the collection it addresses.\<close>

lemma loadPend_granule_trys:
  assumes ok: "loadPend_granule float_of cid collIndex ero g = Inr ero'"
      and idx: "0 \<le> collIndex"
  shows "\<exists>gid stored. find_text g ''granID'' = Inr gid
           \<and> pybind (find_text g ''dwnldtrys'') py_int = Inr stored
           \<and> nat collIndex < length (collContainer ero)
           \<and> length (collContainer ero') = length (collContainer ero)
           \<and> (let old = granContainer (collContainer ero ! nat collIndex);
                   new = granContainer (collContainer ero' ! nat collIndex);
                   granIndex = inGranules ero cid gid
               in if granIndex = -1
                  then \<exists>gran. new = old @ [gran] \<and> egid gran = gid \<and> numDloadTrys gran = stored + 2
                  else nat granIndex < length old
                     \<and> new = old[nat granIndex := (old ! nat granIndex)\<lparr>numDloadTrys := stored + 2\<rparr>])"
  using ok idx
  apply (simp add: loadPend_granule_def pybind_eq_Inr Let_def split: prod.splits)
  apply (elim exE conjE)
  apply (simp add: py_getitem_Inr py_setitem_nonneg split: if_splits)
   apply (auto simp: new_ECHOgranule_def pybind_eq_Inr py_getitem_Inr py_setitem_nonneg add.commute
      dest!: inGranules_nonneg)
  done


text \<open>
  Claim C2, evaluated on the code. The working set holds the collection \<open>C1\<close> with the
  granules \<open>G1\<close> and \<open>G2\<close>, each with one download try. Merging a pending file that
  stores \<open>G1\<close> of \<open>C1\<close> with one try creates no duplicate and leaves \<open>G1\<close> with 3 tries;
  merging one that stores the new granule \<open>G3\<close> with one try appends exactly one entry, with
  3 tries. In both cases the count is the stored count plus 2, where the claim says plus 1.
\<close>

theorem loadPendDwnld_double_increment:
  "(case loadPendDwnld ex_float_of (ex_request [100, 50] 1000) (Some (ex_pend_file [''G1''])) of
      Inl e \<Rightarrow> False
    | Inr ero \<Rightarrow> map (\<lambda>c. map (\<lambda>g. (egid g, numDloadTrys g)) (granContainer c)) (collContainer ero)
                 = [[(''G1'', 3), (''G2'', 1)]])
 \<and> (case loadPendDwnld ex_float_of (ex_request [100, 50] 1000) (Some (ex_pend_file [''G3''])) of
      Inl e \<Rightarrow> False
    | Inr ero \<Rightarrow> map (\<lambda>c. map (\<lambda>g. (egid g, numDloadTrys g)) (granContainer c)) (collContainer ero)
                 = [[(''G1'', 1), (''G2'', 1), (''G3'', 3)]])"
  by code_simp

section \<open>Properties of the database update pass\<close>










section \<open>Properties of the cleanup pass\<close>

lemma cleanup_granule_files:
  "files (fst (cleanup_granule env (s, log) g)) p =
     (if p = localFileName g \<and> downloadStatus g = -1 \<and> files s p \<noteq> None \<and> remove_ok env p
      then None else files s p)"
  by (auto simp: cleanup_granule_def os_access_F_OK_def os_remove_def)

lemma cleanup_granule_log:
  "\<exists>more. snd (cleanup_granule env (s, log) g) = log @ more
     \<and> (downloadStatus g = -1 \<and> files s (localFileName g) \<noteq> None
          \<and> \<not> remove_ok env (localFileName g) \<longrightarrow> more = cleanup_warning g)"
  by (auto simp: cleanup_granule_def os_access_F_OK_def os_remove_def)

lemma cleanup_granules_files:
  "files (fst (foldl (cleanup_granule env) sl gs)) p =
     (if p \<in> localFileName ` set (filter (\<lambda>g. downloadStatus g = -1) gs)
         \<and> files (fst sl) p \<noteq> None \<and> remove_ok env p
      then None else files (fst sl) p)"
proof (induction gs rule: rev_induct)
  case Nil
  then show ?case by simp
next
  case (snoc g gs)
  obtain s1 log1 where r: "foldl (cleanup_granule env) sl gs = (s1, log1)"
    by (cases "foldl (cleanup_granule env) sl gs")
  from snoc r show ?case
    by (auto simp: cleanup_granule_files)
qed

lemma cleanup_granules_log_mono:
  "\<exists>more. snd (foldl (cleanup_granule env) sl gs) = snd sl @ more"
proof (induction gs rule: rev_induct)
  case Nil
  then show ?case by simp
next
  case (snoc g gs)
  obtain s1 log1 where r: "foldl (cleanup_granule env) sl gs = (s1, log1)"
    by (cases "foldl (cleanup_granule env) sl gs")
  from snoc r cleanup_granule_log [of env s1 log1 g] show ?case
    by auto
qed

lemma cleanup_granules_warning:
  assumes "g \<in> set gs" "downloadStatus g = -1" "files (fst sl) (localFileName g) \<noteq> None"
      and "\<not> remove_ok env (localFileName g)"
  shows "set (cleanup_warning g) \<subseteq> set (snd (foldl (cleanup_granule env) sl gs))"
  using assms(1)
proof (induction gs rule: rev_induct)
  case Nil
  then show ?case by simp
next
  case (snoc x gs)
  obtain s1 log1 where r: "foldl (cleanup_granule env) sl gs = (s1, log1)"
    by (cases "foldl (cleanup_granule env) sl gs")
  obtain more where m: "snd (cleanup_granule env (s1, log1) x) = log1 @ more"
    and w: "downloadStatus x = -1 \<and> files s1 (localFileName x) \<noteq> None
          \<and> \<not> remove_ok env (localFileName x) \<longrightarrow> more = cleanup_warning x"
    using cleanup_granule_log [of env s1 log1 x] by blast
  show ?case
  proof (cases "g \<in> set gs")
    case True
    with snoc.IH r m show ?thesis by auto
  next
    case False
    with snoc.prems have gx: "x = g" by simp
    have "files s1 (localFileName g) = files (fst sl) (localFileName g)"
      using cleanup_granules_files [of env sl gs "localFileName g"] r assms(4) by simp
    with w gx assms have "more = cleanup_warning g" by simp
    with r m show ?thesis by simp
  qed
qed

lemma cleanup_as_granules:
  "foldl (cleanup_collection env) sl cs =
     foldl (cleanup_granule env) sl (concat (map granContainer cs))"
  by (induction cs arbitrary: sl) (simp_all add: cleanup_collection_def)

lemma cleanup_eq:
  "cleanup env s ero =
     foldl (cleanup_granule env) (s, [''ECHOdownloader::cleanup'' @ nl]) (all_granules ero)"
  by (simp add: cleanup_def cleanup_as_granules all_granules_def)

lemma cleanup_files:
  "files (fst (cleanup env s ero)) p =
     (if p \<in> failed_files ero \<and> files s p \<noteq> None \<and> remove_ok env p then None else files s p)"
  by (simp add: cleanup_eq cleanup_granules_files failed_files_def)

lemma ex_after_download_granules:
  "all_granules (ex_after_download st1 f1 st2 f2) = [ex_G ''G1'' 100 st1 f1, ex_G ''G2'' 50 st2 f2]"
  by (simp add: all_granules_def ex_after_download_def ex_G_def)

lemma ex_G_simps:
  "downloadStatus (ex_G gid sz st f) = st" "localFileName (ex_G gid sz st f) = f"
  by (simp_all add: ex_G_def)


text \<open>
  Claim C9 as stated fails where a downloaded granule (status 1) and a failed one (status
  -1) have the same local file name: \<^verbatim>\<open>cleanup\<close> removes files by name, so the file of the
  downloaded granule \<open>G1\<close> is gone after the pass.
\<close>

theorem cleanup_shared_file_counterexample:
  "ex_G ''G1'' 100 1 ''/data/AC/SN/2020/001/x.hdf''
     \<in> set (all_granules (ex_after_download 1 ''/data/AC/SN/2020/001/x.hdf''
                                             (-1) ''/data/AC/SN/2020/001/x.hdf''))
   \<and> downloadStatus (ex_G ''G1'' 100 1 ''/data/AC/SN/2020/001/x.hdf'') = 1
   \<and> files (ex_sys [''/data/AC/SN/2020/001/x.hdf'' \<mapsto> OtherData])
        (localFileName (ex_G ''G1'' 100 1 ''/data/AC/SN/2020/001/x.hdf'')) = Some OtherData
   \<and> files (fst (cleanup (ex_env (\<lambda>q. False))
                    (ex_sys [''/data/AC/SN/2020/001/x.hdf'' \<mapsto> OtherData])
                    (ex_after_download 1 ''/data/AC/SN/2020/001/x.hdf''
                                       (-1) ''/data/AC/SN/2020/001/x.hdf'')))
        (localFileName (ex_G ''G1'' 100 1 ''/data/AC/SN/2020/001/x.hdf'')) = None"
  by (simp add: cleanup_files failed_files_def ex_after_download_granules ex_G_simps
      ex_sys_def ex_env_def)


text \<open>
  Claim C9, amended. For every granule of the working set: if its status is -1 and its
  local file exists, then after \<^verbatim>\<open>cleanup\<close> the file is removed when the removal succeeds,
  and otherwise it is unchanged and the warning about it is in the log; if its status is 1
  and no granule of status -1 has the same local file name, its local file is unchanged.
  More generally every file that is not the local file of a granule of status -1 is
  unchanged.
\<close>

theorem cleanup_removes_failed_downloads:
  assumes g: "g \<in> set (all_granules ero)"
  shows "(downloadStatus g = -1 \<and> files s (localFileName g) \<noteq> None \<longrightarrow>
            (if remove_ok env (localFileName g)
             then files (fst (cleanup env s ero)) (localFileName g) = None
             else files (fst (cleanup env s ero)) (localFileName g) = files s (localFileName g)
                  \<and> set (cleanup_warning g) \<subseteq> set (snd (cleanup env s ero))))
       \<and> (downloadStatus g = 1 \<and> localFileName g \<notin> failed_files ero \<longrightarrow>
            files (fst (cleanup env s ero)) (localFileName g) = files s (localFileName g))
       \<and> (\<forall>p. p \<notin> failed_files ero \<longrightarrow> files (fst (cleanup env s ero)) p = files s p)"
proof -
  have "set (cleanup_warning g) \<subseteq> set (snd (cleanup env s ero))"
    if "downloadStatus g = -1" "files s (localFileName g) \<noteq> None" "\<not> remove_ok env (localFileName g)"
    using cleanup_granules_warning [of g "all_granules ero" "(s, [''ECHOdownloader::cleanup'' @ nl])" env]
      g that by (simp add: cleanup_eq)
  moreover have "localFileName g \<in> failed_files ero" if "downloadStatus g = -1"
    using g that by (auto simp: failed_files_def)
  ultimately show ?thesis
    by (simp add: cleanup_files)
qed


theorem cleanup_removes_failed_downloads_witness:
  "ex_G ''G2'' 50 (-1) ''/data/b.hdf'' \<in> set (all_granules (ex_after_download 1 ''/data/a.hdf'' (-1) ''/data/b.hdf''))
   \<and> downloadStatus (ex_G ''G2'' 50 (-1) ''/data/b.hdf'') = -1
   \<and> files (ex_sys [''/data/a.hdf'' \<mapsto> OtherData, ''/data/b.hdf'' \<mapsto> OtherData])
        (localFileName (ex_G ''G2'' 50 (-1) ''/data/b.hdf'')) \<noteq> None
   \<and> remove_ok (ex_env (\<lambda>q. False)) (localFileName (ex_G ''G2'' 50 (-1) ''/data/b.hdf''))
   \<and> files (fst (cleanup (ex_env (\<lambda>q. False))
                    (ex_sys [''/data/a.hdf'' \<mapsto> OtherData, ''/data/b.hdf'' \<mapsto> OtherData])
                    (ex_after_download 1 ''/data/a.hdf'' (-1) ''/data/b.hdf'')))
        (localFileName (ex_G ''G2'' 50 (-1) ''/data/b.hdf'')) = None
   \<and> ex_G ''G1'' 100 1 ''/data/a.hdf'' \<in> set (all_granules (ex_after_download 1 ''/data/a.hdf'' (-1) ''/data/b.hdf''))
   \<and> downloadStatus (ex_G ''G1'' 100 1 ''/data/a.hdf'') = 1
   \<and> localFileName (ex_G ''G1'' 100 1 ''/data/a.hdf'')
        \<notin> failed_files (ex_after_download 1 ''/data/a.hdf'' (-1) ''/data/b.hdf'')
   \<and> files (fst (cleanup (ex_env (\<lambda>q. False))
                    (ex_sys [''/data/a.hdf'' \<mapsto> OtherData, ''/data/b.hdf'' \<mapsto> OtherData])
                    (ex_after_download 1 ''/data/a.hdf'' (-1) ''/data/b.hdf'')))
        (localFileName (ex_G ''G1'' 100 1 ''/data/a.hdf'')) = Some OtherData"
proof -
  have g2: "ex_G ''G2'' 50 (-1) ''/data/b.hdf''
              \<in> set (all_granules (ex_after_download 1 ''/data/a.hdf'' (-1) ''/data/b.hdf''))"
    by (simp add: ex_after_download_granules)
  have g1: "ex_G ''G1'' 100 1 ''/data/a.hdf''
              \<in> set (all_granules (ex_after_download 1 ''/data/a.hdf'' (-1) ''/data/b.hdf''))"
    by (simp add: ex_after_download_granules)
  have nf: "localFileName (ex_G ''G1'' 100 1 ''/data/a.hdf'')
        \<notin> failed_files (ex_after_download 1 ''/data/a.hdf'' (-1) ''/data/b.hdf'')"
    by (simp add: failed_files_def ex_after_download_granules ex_G_simps)
  show ?thesis
    using cleanup_removes_failed_downloads [OF g2, of
        "ex_sys [''/data/a.hdf'' \<mapsto> OtherData, ''/data/b.hdf'' \<mapsto> OtherData]"
        "ex_env (\<lambda>q. False)"]
      cleanup_removes_failed_downloads [OF g1, of
        "ex_sys [''/data/a.hdf'' \<mapsto> OtherData, ''/data/b.hdf'' \<mapsto> OtherData]"
        "ex_env (\<lambda>q. False)"]
      g1 g2 nf
    by (simp add: ex_G_simps ex_sys_def ex_env_def)
qed

section \<open>Properties of the replay of pending transactions\<close>































section \<open>Properties of request loading\<close>


















text \<open>
  Claim C10. A dataset whose recurring criterion has a year and a start element but no end
  element does not get the message about missing criteria: the comparison of the months
  reads \<^verbatim>\<open>mon_end\<close>, which is unbound, and the method is left by UnboundLocalError. With
  an end element without attributes \<^verbatim>\<open>mon_end\<close> is the empty string and \<^verbatim>\<open>int\<close> raises
  ValueError. And when an earlier dataset has assigned \<^verbatim>\<open>mon_end\<close> (here 6), a later
  dataset without end element is compared against that stale value: with the start month
  7 the method returns False with the message about the order of the months.
\<close>

theorem loadDataSetQueries_missing_end:
  "loadDataSetQueries
     (ex_edr [ex_dataset ''MOD04''
                [ex_year ''2019'' ''2020'', ex_start ''3'' ''1'' ''00:00:00'']])
     = Raise (UnboundLocalError ''mon_end'')
   \<and> loadDataSetQueries
     (ex_edr [ex_dataset ''MOD04''
                [ex_year ''2019'' ''2020'', ex_start ''3'' ''1'' ''00:00:00'',
                 Element ''end'' [] [] []]])
     = Raise ValueError
   \<and> loadDataSetQueries
     (ex_edr [ex_dataset ''MOD04''
                [ex_year ''2019'' ''2021'', ex_start ''3'' ''1'' ''00:00:00'',
                 ex_end ''6'' ''30'' ''23:59:59''],
              ex_dataset ''MOD05''
                [ex_year ''2019'' ''2020'', ex_start ''7'' ''1'' ''00:00:00'']])
     = ReturnFalse (tab @ ''Month start past month end in temporal recurring search criteria'')"
  by code_simp

section \<open>Properties of the catalog queries\<close>










section \<open>Properties of the transfer loop\<close>












lemma md_fill_counter [simp]: "num_processed (md_fill s) = num_processed s"
  by (simp add: md_fill_def split_beta)





lemma md_finish_counter [simp]: "num_processed (md_finish code s c) = num_processed s"
  by (simp add: md_finish_def split: option.splits prod.splits)
































lemma ex_transfers_run:
  "fst (md_run 3 ex_transport ex_transfers) \<and>
   \<not> fst (md_run 2 ex_transport ex_transfers) \<and>
   max_inflight (snd (md_run 3 ex_transport ex_transfers)) = 10 \<and>
   num_processed (snd (md_run 3 ex_transport ex_transfers)) = 12 \<and>
   map (md_status (snd (md_run 3 ex_transport ex_transfers)))
     [''G01'', ''G02'', ''G03'', ''G04'', ''G05'', ''G06'',
      ''G07'', ''G08'', ''G09'', ''G10'', ''G11'', ''G12''] =
     [Some 1, Some 1, Some (- 1), Some 1, Some (- 1), Some (- 1),
      Some (- 1), Some (- 1), Some 1, Some 1, Some (- 1), Some 1]"
  by code_simp



end
